theory Spec2Isabelle
  imports Main "HOL-Library.Word"
begin

unbundle bit_operations_syntax

section \<open>Machine types\<close>

type_synonym u8 = "8 word"
type_synonym u16 = "16 word"
type_synonym u32 = "32 word"
type_synonym u64 = "64 word"
type_synonym s64 = "64 word"

section \<open>Kernel memory and the bounded reader\<close>

text \<open>
  Kernel memory is a partial map from 64-bit addresses to bytes: an address that is
  unmapped (or not readable from the probe) has no byte. The traced object is a pointer
  into this memory, so an invalid pointer is simply one whose fields are unmapped.
\<close>

type_synonym kmem = "u64 \<Rightarrow> u8 option"

fun read_bytes :: "kmem \<Rightarrow> u64 \<Rightarrow> nat \<Rightarrow> u8 list option" where
  "read_bytes m a 0 = Some []"
| "read_bytes m a (Suc n) =
     (case m a of
        None \<Rightarrow> None
      | Some b \<Rightarrow> (case read_bytes m (a + 1) n of None \<Rightarrow> None | Some bs \<Rightarrow> Some (b # bs)))"

definition EFAULT :: int where
  "EFAULT = 14"

text \<open>
  Modelled from the spec: the helper \<^verbatim>\<open>bpf_probe_read(dst, size, src)\<close> is provided by the
  kernel and is not part of \<^verbatim>\<open>kprobe_pwru.c\<close>. Section 4.1 of the specification gives its
  contract: it copies exactly \<^verbatim>\<open>size\<close> bytes, never faults, and returns a distinguishable
  failure that callers treat as "field unavailable, treat as zero". The model returns the
  status together with the content of the destination buffer: the bytes read and status 0,
  or a zero-filled buffer and a negative status when any byte of the source is unreadable.
\<close>

definition bpf_probe_read :: "kmem \<Rightarrow> nat \<Rightarrow> u64 \<Rightarrow> int \<times> u8 list" where
  "bpf_probe_read m sz src =
     (case read_bytes m src sz of
        None \<Rightarrow> (- EFAULT, replicate sz 0)
      | Some bs \<Rightarrow> (0, bs))"

text \<open>
  Modelled from the spec: \<^verbatim>\<open>BPF_CORE_READ(src, field)\<close> of \<^verbatim>\<open>bpf_core_read.h\<close> reads one
  field with the same bounded reader into a temporary and yields the temporary, discarding
  the status. The address argument is the relocated address of the field. A chain
  \<^verbatim>\<open>BPF_CORE_READ(src, a, b)\<close> reads the pointer \<^verbatim>\<open>src->a\<close> into a temporary in this way
  and then the field \<^verbatim>\<open>b\<close> through that temporary.
\<close>

definition BPF_CORE_READ :: "kmem \<Rightarrow> nat \<Rightarrow> u64 \<Rightarrow> u8 list" where
  "BPF_CORE_READ m sz src = snd (bpf_probe_read m sz src)"

text \<open>The probes run on x86-64: a scalar is stored least significant byte first.\<close>

fun le_word :: "u8 list \<Rightarrow> 'a::len word" where
  "le_word [] = 0"
| "le_word (b # bs) = ucast b OR push_bit 8 (le_word bs)"

definition field :: "u8 list \<Rightarrow> nat \<Rightarrow> nat \<Rightarrow> u8 list" where
  "field bs off sz = take sz (drop off bs)"

section \<open>Structure layouts taken from the kernel headers\<close>

text \<open>
  \<^verbatim>\<open>vmlinux.h\<close> is not among the sources. The offsets of the fields of
  \<^verbatim>\<open>struct sk_buff\<close> and \<^verbatim>\<open>struct net_device\<close> depend on the kernel and are parameters of
  the model.
\<close>

record layout =
  off_mark :: u64
  off_len :: u64
  off_protocol :: u64
  off_dev :: u64
  off_head :: u64
  off_network_header :: u64
  off_transport_header :: u64
  off_ifindex :: u64
  off_mtu :: u64

text \<open>
  Modelled from the spec: the IPv4, TCP and UDP headers have their wire layout, and
  "TCP and UDP headers use the same byte offsets for source/destination port".
\<close>

definition sizeof_iphdr :: nat where "sizeof_iphdr = 20"
definition iphdr_off_protocol :: nat where "iphdr_off_protocol = 9"
definition iphdr_off_saddr :: nat where "iphdr_off_saddr = 12"
definition iphdr_off_daddr :: nat where "iphdr_off_daddr = 16"

definition sizeof_tcphdr :: nat where "sizeof_tcphdr = 20"
definition tcphdr_off_source :: nat where "tcphdr_off_source = 0"
definition tcphdr_off_dest :: nat where "tcphdr_off_dest = 2"

definition sizeof_udphdr :: nat where "sizeof_udphdr = 8"
definition udphdr_off_source :: nat where "udphdr_off_source = 0"
definition udphdr_off_dest :: nat where "udphdr_off_dest = 2"

definition IPPROTO_TCP :: u8 where "IPPROTO_TCP = 6"
definition IPPROTO_UDP :: u8 where "IPPROTO_UDP = 17"

definition PRINT_SKB_STR_SIZE :: nat where
  "PRINT_SKB_STR_SIZE = 2048"

section \<open>The data model of the probe\<close>

record skb_meta =
  mark :: u32
  ifindex :: u32
  len :: u32
  mtu :: u32
  protocol :: u16
  pad :: u16

record tuple =
  saddr :: u32
  daddr :: u32
  sport :: u16
  dport :: u16
  proto :: u8
  pad :: "u8 list"

record event_t =
  pid :: u32
  type :: u32
  addr :: u64
  skb_addr :: u64
  ts :: u64
  print_skb_id :: u64
  meta :: skb_meta
  tuple :: tuple
  print_stack_id :: s64

text \<open>
  \<^verbatim>\<open>union addr\<close> is sixteen bytes, seen as \<^verbatim>\<open>pad[0]\<close> and \<^verbatim>\<open>pad[1]\<close>; its member
  \<^verbatim>\<open>v4addr\<close> overlays the first four bytes, the low half of \<^verbatim>\<open>pad[0]\<close>.
\<close>

record addr_union =
  pad0 :: u64
  pad1 :: u64

definition v4addr :: "addr_union \<Rightarrow> u32" where
  "v4addr a = ucast (pad0 a)"

record config =
  mark :: u32
  ipv6 :: u8
  saddr :: addr_union
  daddr :: addr_union
  l4_proto :: u8
  sport :: u16
  dport :: u16
  output_timestamp :: u8
  output_meta :: u8
  output_tuple :: u8
  output_skb :: u8
  output_stack :: u8
  pad :: u8

record pt_regs =
  di :: u64
  si :: u64
  dx :: u64
  cx :: u64
  r8 :: u64
  sp :: u64
  bp :: u64
  ax :: u64
  ip :: u64

definition PT_REGS_IP :: "pt_regs \<Rightarrow> u64" where "PT_REGS_IP x = ip x"

record btf_ptr =
  ptr :: u64
  type_id :: u32

type_synonym stack_map = "u32 \<Rightarrow> u64 list option"

text \<open>
  What an invocation reads from outside the file: the build (\<open>kernel_ge_5_5\<close> is the outcome
  of the test \<^verbatim>\<open>LINUX_KERNEL_VERSION >= KERNEL_VERSION(5, 5, 0)\<close>, \<open>OUTPUT_SKB\<close> says whether
  that macro is defined, \<open>lay\<close> gives the layouts), kernel memory, the slot of \<^verbatim>\<open>cfg_map\<close>
  (none when the lookup returns a null pointer), and the results of the kernel helpers the
  handler calls: \<^verbatim>\<open>bpf_get_current_pid_tgid\<close>, \<^verbatim>\<open>bpf_ktime_get_ns\<close>, \<^verbatim>\<open>bpf_get_stackid\<close>
  (the id and the stack-trace table it leaves), \<^verbatim>\<open>bpf_snprintf_btf\<close> and
  \<^verbatim>\<open>bpf_core_type_id_kernel\<close>.
\<close>

record kenv =
  kernel_ge_5_5 :: bool
  OUTPUT_SKB :: bool
  lay :: layout
  kmem :: kmem
  cfg_map :: "config option"
  current_pid_tgid :: u64
  ktime_ns :: u64
  get_stackid :: "pt_regs \<Rightarrow> stack_map \<Rightarrow> s64 \<times> stack_map"
  snprintf_btf :: "u8 list \<Rightarrow> nat \<Rightarrow> btf_ptr \<Rightarrow> int \<times> u8 list"
  type_id_kernel_sk_buff :: u32

text \<open>
  What an invocation can change: the records pushed on the \<^verbatim>\<open>events\<close> channel, the
  shared counter \<^verbatim>\<open>print_skb_id\<close> (here \<open>print_skb_id_ctr\<close>, the event has a field of the
  same name), the dump slots, the static \<^verbatim>\<open>btf_ptr\<close> of \<^verbatim>\<open>set_skb_btf\<close>, and the
  stack-trace table.
\<close>

record kstate =
  events :: "event_t list"
  print_skb_id_ctr :: u64
  print_skb_map :: "u8 list list"
  p_static :: btf_ptr
  print_stack_map :: stack_map

section \<open>The filter\<close>

definition filter_mark :: "kenv \<Rightarrow> u64 \<Rightarrow> config \<Rightarrow> bool" where
  "filter_mark E skb cfg =
     (if config.mark cfg \<noteq> 0 then
        (let mark = (if kernel_ge_5_5 E
                     then (le_word (BPF_CORE_READ (kmem E) 4 (skb + off_mark (lay E))) :: u32)
                     else le_word (snd (bpf_probe_read (kmem E) 4 (skb + off_mark (lay E)))))
         in mark = config.mark cfg)
      else True)"

definition filter_l3_and_l4 :: "kenv \<Rightarrow> u64 \<Rightarrow> config \<Rightarrow> bool" where
  "filter_l3_and_l4 E skb cfg =
     (if l4_proto cfg = 0 \<and>
         pad0 (config.saddr cfg) = 0 \<and> pad1 (config.saddr cfg) = 0 \<and>
         pad0 (config.daddr cfg) = 0 \<and> pad1 (config.daddr cfg) = 0 \<and>
         config.sport cfg = 0 \<and> config.dport cfg = 0
      then True
      else
        (let skb_head = (if kernel_ge_5_5 E
                         then (le_word (BPF_CORE_READ (kmem E) 8 (skb + off_head (lay E))) :: u64)
                         else le_word (snd (bpf_probe_read (kmem E) 8 (skb + off_head (lay E)))));
             l3_off = (if kernel_ge_5_5 E
                       then (le_word (BPF_CORE_READ (kmem E) 2 (skb + off_network_header (lay E))) :: u16)
                       else le_word (snd (bpf_probe_read (kmem E) 2 (skb + off_network_header (lay E)))));
             l4_off = (if kernel_ge_5_5 E
                       then (le_word (BPF_CORE_READ (kmem E) 2 (skb + off_transport_header (lay E))) :: u16)
                       else le_word (snd (bpf_probe_read (kmem E) 2 (skb + off_transport_header (lay E)))));
             tmp = skb_head + ucast l3_off;
             iphdr_first_byte = (le_word (snd (bpf_probe_read (kmem E) 1 tmp)) :: u8);
             ip_vsn = drop_bit 4 iphdr_first_byte
         in
           if ip_vsn \<noteq> 4 then False
           else
             (let ip4 = snd (bpf_probe_read (kmem E) sizeof_iphdr tmp);
                  ip4_saddr = (le_word (field ip4 iphdr_off_saddr 4) :: u32);
                  ip4_daddr = (le_word (field ip4 iphdr_off_daddr 4) :: u32);
                  ip4_protocol = (le_word (field ip4 iphdr_off_protocol 1) :: u8)
              in
                if v4addr (config.saddr cfg) \<noteq> 0 \<and> ip4_saddr \<noteq> v4addr (config.saddr cfg) then False
                else if v4addr (config.daddr cfg) \<noteq> 0 \<and> ip4_daddr \<noteq> v4addr (config.daddr cfg) then False
                else if l4_proto cfg \<noteq> 0 \<and> ip4_protocol \<noteq> l4_proto cfg then False
                else if config.dport cfg \<noteq> 0 \<or> config.sport cfg \<noteq> 0 then
                  (case
                     (if ip4_protocol = IPPROTO_TCP then
                        (let tcp = snd (bpf_probe_read (kmem E) sizeof_tcphdr (skb_head + ucast l4_off))
                         in Some ((le_word (field tcp tcphdr_off_source 2) :: u16),
                                  (le_word (field tcp tcphdr_off_dest 2) :: u16)))
                      else if ip4_protocol = IPPROTO_UDP then
                        (let udp = snd (bpf_probe_read (kmem E) sizeof_udphdr (skb_head + ucast l4_off))
                         in Some ((le_word (field udp udphdr_off_source 2) :: u16),
                                  (le_word (field udp udphdr_off_dest 2) :: u16)))
                      else None)
                   of
                     None \<Rightarrow> False
                   | Some (l4_sport, l4_dport) \<Rightarrow>
                       if config.sport cfg \<noteq> 0 \<and> l4_sport \<noteq> config.sport cfg then False
                       else if config.dport cfg \<noteq> 0 \<and> l4_dport \<noteq> config.dport cfg then False
                       else True)
                else True)))"

text \<open>The source's \<^verbatim>\<open>filter\<close>; the name \<open>filter\<close> is the list function of HOL.\<close>

definition filter_skb :: "kenv \<Rightarrow> u64 \<Rightarrow> config \<Rightarrow> bool" where
  "filter_skb E skb cfg = (filter_mark E skb cfg \<and> filter_l3_and_l4 E skb cfg)"

section \<open>The output extractors\<close>

definition set_meta :: "kenv \<Rightarrow> u64 \<Rightarrow> skb_meta \<Rightarrow> skb_meta" where
  "set_meta E skb m0 =
     (if kernel_ge_5_5 E then
        (let m1 = m0\<lparr>skb_meta.mark := le_word (BPF_CORE_READ (kmem E) 4 (skb + off_mark (lay E)))\<rparr>;
             m2 = m1\<lparr>len := le_word (BPF_CORE_READ (kmem E) 4 (skb + off_len (lay E)))\<rparr>;
             m3 = m2\<lparr>protocol := le_word (BPF_CORE_READ (kmem E) 2 (skb + off_protocol (lay E)))\<rparr>;
             m4 = m3\<lparr>ifindex :=
                    le_word (BPF_CORE_READ (kmem E) 4
                      ((le_word (BPF_CORE_READ (kmem E) 8 (skb + off_dev (lay E))) :: u64)
                         + off_ifindex (lay E)))\<rparr>
         in m4\<lparr>mtu :=
                 le_word (BPF_CORE_READ (kmem E) 4
                   ((le_word (BPF_CORE_READ (kmem E) 8 (skb + off_dev (lay E))) :: u64)
                      + off_mtu (lay E)))\<rparr>)
      else
        (let m1 = m0\<lparr>skb_meta.mark := le_word (snd (bpf_probe_read (kmem E) 4 (skb + off_mark (lay E))))\<rparr>;
             m2 = m1\<lparr>len := le_word (snd (bpf_probe_read (kmem E) 4 (skb + off_len (lay E))))\<rparr>;
             m3 = m2\<lparr>protocol := le_word (snd (bpf_probe_read (kmem E) 2 (skb + off_protocol (lay E))))\<rparr>;
             (ret, dev_bytes) = bpf_probe_read (kmem E) 8 (skb + off_dev (lay E));
             dev = (le_word dev_bytes :: u64)
         in
           if ret = 0 then
             (let m4 = m3\<lparr>ifindex := le_word (snd (bpf_probe_read (kmem E) 4 (dev + off_ifindex (lay E))))\<rparr>
              in m4\<lparr>mtu := le_word (snd (bpf_probe_read (kmem E) 4 (dev + off_mtu (lay E))))\<rparr>)
           else m3))"

definition set_tuple :: "kenv \<Rightarrow> u64 \<Rightarrow> tuple \<Rightarrow> tuple" where
  "set_tuple E skb t0 =
     (let skb_head = (if kernel_ge_5_5 E
                      then (le_word (BPF_CORE_READ (kmem E) 8 (skb + off_head (lay E))) :: u64)
                      else le_word (snd (bpf_probe_read (kmem E) 8 (skb + off_head (lay E)))));
          l3_off = (if kernel_ge_5_5 E
                    then (le_word (BPF_CORE_READ (kmem E) 2 (skb + off_network_header (lay E))) :: u16)
                    else le_word (snd (bpf_probe_read (kmem E) 2 (skb + off_network_header (lay E)))));
          l4_off = (if kernel_ge_5_5 E
                    then (le_word (BPF_CORE_READ (kmem E) 2 (skb + off_transport_header (lay E))) :: u16)
                    else le_word (snd (bpf_probe_read (kmem E) 2 (skb + off_transport_header (lay E)))));
          iph = skb_head + ucast l3_off;
          t1 = t0\<lparr>proto := le_word (snd (bpf_probe_read (kmem E) 1 (iph + of_nat iphdr_off_protocol)))\<rparr>;
          iphdr_first_byte = (le_word (snd (bpf_probe_read (kmem E) 1 iph)) :: u8);
          ip_vsn = drop_bit 4 iphdr_first_byte;
          t2 = (if ip_vsn = 4 then
                  (let ta = t1\<lparr>tuple.saddr :=
                              le_word (snd (bpf_probe_read (kmem E) 4 (iph + of_nat iphdr_off_saddr)))\<rparr>;
                       tb = ta\<lparr>tuple.daddr :=
                              le_word (snd (bpf_probe_read (kmem E) 4 (iph + of_nat iphdr_off_daddr)))\<rparr>
                   in tb\<lparr>tuple.pad :=
                          snd (bpf_probe_read (kmem E) 4 (iph + of_nat iphdr_off_daddr))
                            @ drop 4 (tuple.pad tb)\<rparr>)
                else t1)
      in
        if proto t2 = IPPROTO_TCP then
          (let tcp = skb_head + ucast l4_off;
               ta = t2\<lparr>tuple.sport :=
                      le_word (snd (bpf_probe_read (kmem E) 2 (tcp + of_nat tcphdr_off_source)))\<rparr>
           in ta\<lparr>tuple.dport :=
                  le_word (snd (bpf_probe_read (kmem E) 2 (tcp + of_nat tcphdr_off_dest)))\<rparr>)
        else if proto t2 = IPPROTO_UDP then
          (let udp = skb_head + ucast l4_off;
               ta = t2\<lparr>tuple.sport :=
                      le_word (snd (bpf_probe_read (kmem E) 2 (udp + of_nat udphdr_off_source)))\<rparr>
           in ta\<lparr>tuple.dport :=
                  le_word (snd (bpf_probe_read (kmem E) 2 (udp + of_nat udphdr_off_dest)))\<rparr>)
        else t2)"

text \<open>\<^verbatim>\<open>__sync_fetch_and_add(&print_skb_id, n)\<close>: the old value, and the counter advanced.\<close>

definition sync_fetch_and_add :: "kstate \<Rightarrow> u64 \<Rightarrow> u64 \<times> kstate" where
  "sync_fetch_and_add s n =
     (print_skb_id_ctr s, s\<lparr>print_skb_id_ctr := print_skb_id_ctr s + n\<rparr>)"

text \<open>
  \<^verbatim>\<open>bpf_map_lookup_elem\<close> on the array \<^verbatim>\<open>print_skb_map\<close>: the slot of a key below the
  number of entries, no slot otherwise.
\<close>

definition print_skb_map_lookup :: "kstate \<Rightarrow> u32 \<Rightarrow> nat option" where
  "print_skb_map_lookup s key =
     (if unat key < length (print_skb_map s) then Some (unat key) else None)"

text \<open>
  With \<^verbatim>\<open>OUTPUT_SKB\<close> undefined the body of \<^verbatim>\<open>set_skb_btf\<close> is empty. The formatter
  \<^verbatim>\<open>bpf_snprintf_btf\<close> is a kernel helper: \<open>snprintf_btf\<close> gives its status and the content
  it leaves in the buffer, from the content before, the size and the \<^verbatim>\<open>btf_ptr\<close>. The key
  of the lookup is \<^verbatim>\<open>(u32 *) &id\<close>, the low four bytes of the 64-bit id.
\<close>

definition set_skb_btf :: "kenv \<Rightarrow> u64 \<Rightarrow> u64 \<Rightarrow> kstate \<Rightarrow> u64 \<times> kstate" where
  "set_skb_btf E skb event_id s =
     (if OUTPUT_SKB E then
        (let s1 = s\<lparr>p_static := (p_static s)\<lparr>type_id := type_id_kernel_sk_buff E\<rparr>\<rparr>;
             s2 = s1\<lparr>p_static := (p_static s1)\<lparr>ptr := skb\<rparr>\<rparr>;
             (old, s3) = sync_fetch_and_add s2 1;
             idx = old mod 256
         in
           case print_skb_map_lookup s3 (ucast idx) of
             None \<Rightarrow> (event_id, s3)
           | Some slot \<Rightarrow>
               (let (ret, buf) = snprintf_btf E (print_skb_map s3 ! slot) PRINT_SKB_STR_SIZE (p_static s3);
                    s4 = s3\<lparr>print_skb_map := (print_skb_map s3)[slot := buf]\<rparr>
                in if ret < 0 then (event_id, s4) else (idx, s4)))
      else (event_id, s))"

definition set_output :: "kenv \<Rightarrow> pt_regs \<Rightarrow> u64 \<Rightarrow> event_t \<Rightarrow> config \<Rightarrow> kstate \<Rightarrow> event_t \<times> kstate" where
  "set_output E ctx skb e0 cfg s =
     (let e1 = (if output_meta cfg \<noteq> 0 then e0\<lparr>meta := set_meta E skb (meta e0)\<rparr> else e0);
          e2 = (if output_tuple cfg \<noteq> 0 then e1\<lparr>tuple := set_tuple E skb (tuple e1)\<rparr> else e1);
          (e3, s3) = (if output_skb cfg \<noteq> 0
                      then (let (i, s') = set_skb_btf E skb (print_skb_id e2) s
                            in (e2\<lparr>print_skb_id := i\<rparr>, s'))
                      else (e2, s))
      in
        if output_stack cfg \<noteq> 0
        then (let (sid, sm) = get_stackid E ctx (print_stack_map s3)
              in (e3\<lparr>print_stack_id := sid\<rparr>, s3\<lparr>print_stack_map := sm\<rparr>))
        else (e3, s3))"

section \<open>The handler and the entry points\<close>

text \<open>\<^verbatim>\<open>struct event_t event = {}\<close>: every field zero.\<close>

definition zero_meta :: skb_meta where
  "zero_meta = \<lparr>skb_meta.mark = 0, ifindex = 0, len = 0, mtu = 0, protocol = 0, skb_meta.pad = 0\<rparr>"

definition zero_tuple :: tuple where
  "zero_tuple = \<lparr>tuple.saddr = 0, tuple.daddr = 0, tuple.sport = 0, tuple.dport = 0, proto = 0,
                 tuple.pad = replicate 7 0\<rparr>"

definition zero_event :: event_t where
  "zero_event = \<lparr>pid = 0, type = 0, addr = 0, skb_addr = 0, ts = 0, print_skb_id = 0,
                 meta = zero_meta, tuple = zero_tuple, print_stack_id = 0\<rparr>"

text \<open>\<^verbatim>\<open>bpf_map_lookup_elem(&cfg_map, &index)\<close>: the array has one entry, at index 0.\<close>

definition cfg_map_lookup :: "kenv \<Rightarrow> u32 \<Rightarrow> config option" where
  "cfg_map_lookup E index = (if index = 0 then cfg_map E else None)"

text \<open>
  \<^verbatim>\<open>bpf_perf_event_output\<close> hands one record to the \<^verbatim>\<open>events\<close> channel; the state keeps
  the sequence of records handed over.
\<close>

definition bpf_perf_event_output :: "kstate \<Rightarrow> event_t \<Rightarrow> kstate" where
  "bpf_perf_event_output s e = s\<lparr>events := events s @ [e]\<rparr>"

definition handle_everything :: "kenv \<Rightarrow> u64 \<Rightarrow> pt_regs \<Rightarrow> kstate \<Rightarrow> int \<times> kstate" where
  "handle_everything E skb ctx s =
     (let index = 0;
          cfg = cfg_map_lookup E index
      in
        case (case cfg of
                Some c \<Rightarrow> (if \<not> filter_skb E skb c then None
                           else Some (set_output E ctx skb zero_event c s))
              | None \<Rightarrow> Some (zero_event, s))
        of
          None \<Rightarrow> (0, s)
        | Some (e0, s0) \<Rightarrow>
            (let e1 = e0\<lparr>pid := ucast (current_pid_tgid E)\<rparr>;
                 e2 = e1\<lparr>addr := PT_REGS_IP ctx\<rparr>;
                 e3 = e2\<lparr>skb_addr := skb\<rparr>;
                 e4 = e3\<lparr>ts := ktime_ns E\<rparr>
             in (0, bpf_perf_event_output s0 e4)))"







section \<open>Observables used in the statements\<close>

text \<open>
  What the bounded reader delivers for a scalar at an address: the value stored there, or
  zero when a byte of it is unreadable.
\<close>

definition rd8 :: "kenv \<Rightarrow> u64 \<Rightarrow> u8" where
  "rd8 E a = le_word (snd (bpf_probe_read (kmem E) 1 a))"

definition rd16 :: "kenv \<Rightarrow> u64 \<Rightarrow> u16" where
  "rd16 E a = le_word (snd (bpf_probe_read (kmem E) 2 a))"

definition rd32 :: "kenv \<Rightarrow> u64 \<Rightarrow> u32" where
  "rd32 E a = le_word (snd (bpf_probe_read (kmem E) 4 a))"

definition rd64 :: "kenv \<Rightarrow> u64 \<Rightarrow> u64" where
  "rd64 E a = le_word (snd (bpf_probe_read (kmem E) 8 a))"

text \<open>
  The headers of a traced object: the buffer start recorded in the object plus the
  recorded network and transport offsets.
\<close>

definition skb_head_of :: "kenv \<Rightarrow> u64 \<Rightarrow> u64" where
  "skb_head_of E skb = rd64 E (skb + off_head (lay E))"

definition network_header_of :: "kenv \<Rightarrow> u64 \<Rightarrow> u64" where
  "network_header_of E skb =
     skb_head_of E skb + ucast (rd16 E (skb + off_network_header (lay E)))"

definition transport_header_of :: "kenv \<Rightarrow> u64 \<Rightarrow> u64" where
  "transport_header_of E skb =
     skb_head_of E skb + ucast (rd16 E (skb + off_transport_header (lay E)))"

text \<open>The IP version: the high nibble of the first byte of the network header.\<close>

definition ip_version :: "kenv \<Rightarrow> u64 \<Rightarrow> u8" where
  "ip_version E skb = drop_bit 4 (rd8 E (network_header_of E skb))"

text \<open>The 5-tuple portion of a configuration is entirely zero.\<close>

definition tuple_filter_zero :: "config \<Rightarrow> bool" where
  "tuple_filter_zero cfg =
     (config.saddr cfg = \<lparr>pad0 = 0, pad1 = 0\<rparr> \<and> config.daddr cfg = \<lparr>pad0 = 0, pad1 = 0\<rparr> \<and>
      l4_proto cfg = 0 \<and> config.sport cfg = 0 \<and> config.dport cfg = 0)"

text \<open>
  The IPv4 header as the filter sees it: twenty bytes copied in one bounded read, with the
  protocol at byte 9, the source address at bytes 12 to 15 and the destination address at
  bytes 16 to 19.
\<close>

definition ip4_hdr :: "kenv \<Rightarrow> u64 \<Rightarrow> u8 list" where
  "ip4_hdr E skb = snd (bpf_probe_read (kmem E) 20 (network_header_of E skb))"

definition ip4_saddr :: "kenv \<Rightarrow> u64 \<Rightarrow> u32" where
  "ip4_saddr E skb = le_word (take 4 (drop 12 (ip4_hdr E skb)))"

definition ip4_daddr :: "kenv \<Rightarrow> u64 \<Rightarrow> u32" where
  "ip4_daddr E skb = le_word (take 4 (drop 16 (ip4_hdr E skb)))"

definition ip4_protocol :: "kenv \<Rightarrow> u64 \<Rightarrow> u8" where
  "ip4_protocol E skb = le_word (take 1 (drop 9 (ip4_hdr E skb)))"

text \<open>
  The transport header as the filter sees it: one bounded read of a TCP header (twenty
  bytes) when the protocol byte is 6, of a UDP header (eight bytes) otherwise; and the
  16-bit field at a byte offset of it.
\<close>

definition l4_hdr :: "kenv \<Rightarrow> u64 \<Rightarrow> u8 list" where
  "l4_hdr E skb =
     snd (bpf_probe_read (kmem E) (if ip4_protocol E skb = 6 then 20 else 8)
            (transport_header_of E skb))"

definition l4_port :: "kenv \<Rightarrow> u64 \<Rightarrow> nat \<Rightarrow> u16" where
  "l4_port E skb off = le_word (take 2 (drop off (l4_hdr E skb)))"

section \<open>Concrete objects\<close>

text \<open>A memory image made of segments, each a base address and the bytes stored from it.\<close>

fun mem_of :: "(u64 \<times> u8 list) list \<Rightarrow> kmem" where
  "mem_of [] a = None"
| "mem_of ((base, bs) # segs) a =
     (if base \<le> a \<and> unat (a - base) < length bs then Some (bs ! unat (a - base))
      else mem_of segs a)"

definition ex_layout :: layout where
  "ex_layout = \<lparr>off_mark = 0, off_len = 4, off_protocol = 8, off_dev = 16, off_head = 24,
     off_network_header = 32, off_transport_header = 34, off_ifindex = 0, off_mtu = 4\<rparr>"

text \<open>
  A packet descriptor at address \<open>0x1000\<close>: mark 5, length 60, device at \<open>0x3000\<close>, buffer
  at \<open>0x2000\<close>, network header at offset 14, transport header at offset 34.
\<close>

definition ex_skb :: "u8 list" where
  "ex_skb = [5,0,0,0, 60,0,0,0, 8,0, 0,0,0,0,0,0, 0,0x30,0,0,0,0,0,0,
             0,0x20,0,0,0,0,0,0, 14,0, 34,0]"

text \<open>The same descriptor for an IPv6 packet: transport header at offset 54.\<close>

definition ex_skb6 :: "u8 list" where
  "ex_skb6 = [5,0,0,0, 74,0,0,0, 0x86,0xDD, 0,0,0,0,0,0, 0,0x30,0,0,0,0,0,0,
              0,0x20,0,0,0,0,0,0, 14,0, 54,0]"

definition ex_eth :: "u8 list" where
  "ex_eth = [0,0,0,0,0,0,0,0,0,0,0,0,0,0]"

text \<open>
  A TCP header with source port 4444 and destination port 443. The ports are stored in
  network order; loaded as 16-bit scalars on x86-64 they are \<open>0x5C11\<close> and \<open>0xBB01\<close>, and
  that is how a configuration holds them.
\<close>

definition ex_tcp :: "u8 list" where
  "ex_tcp = [0x11,0x5C, 0x01,0xBB, 0,0,0,0, 0,0,0,0, 0x50,0,0,0, 0,0,0,0]"

text \<open>IPv4, TCP, 192.168.1.1 to 192.168.1.2.\<close>

definition ex_pkt4 :: "u8 list" where
  "ex_pkt4 = ex_eth @ [0x45,0,0,40, 0,0,0,0, 64,6,0,0, 192,168,1,1, 192,168,1,2] @ ex_tcp"

text \<open>IPv4, TCP, 10.0.0.1 to 0.0.0.0.\<close>

definition ex_pkt0 :: "u8 list" where
  "ex_pkt0 = ex_eth @ [0x45,0,0,40, 0,0,0,0, 64,6,0,0, 10,0,0,1, 0,0,0,0] @ ex_tcp"

text \<open>
  IPv6, TCP, 2a06:98c0::1 to 2a06:98c0::2. Byte 9 of the header, the second byte of the
  source address, is 6.
\<close>

definition ex_pkt6 :: "u8 list" where
  "ex_pkt6 = ex_eth @ [0x60,0,0,0, 0,20,6,64,
                       0x2A,0x06,0x98,0xC0, 0,0,0,0, 0,0,0,0, 0,0,0,1,
                       0x2A,0x06,0x98,0xC0, 0,0,0,0, 0,0,0,0, 0,0,0,2] @ ex_tcp"

text \<open>A device record: ifindex 7, mtu 1500.\<close>

definition ex_dev :: "u8 list" where
  "ex_dev = [7,0,0,0, 0xDC,5,0,0]"

definition ex_env :: kenv where
  "ex_env = \<lparr>kernel_ge_5_5 = False, OUTPUT_SKB = True, lay = ex_layout,
     kmem = mem_of [(0x1000, ex_skb), (0x2000, ex_pkt4), (0x3000, ex_dev)],
     cfg_map = None, current_pid_tgid = 0x0000006400000065, ktime_ns = 1000,
     get_stackid = (\<lambda>c m. (3, m)), snprintf_btf = (\<lambda>b n p. (1, [1])),
     type_id_kernel_sk_buff = 9\<rparr>"

definition ex_env0 :: kenv where
  "ex_env0 = ex_env\<lparr>kmem := mem_of [(0x1000, ex_skb), (0x2000, ex_pkt0), (0x3000, ex_dev)]\<rparr>"

definition ex_env6 :: kenv where
  "ex_env6 = ex_env\<lparr>kmem := mem_of [(0x1000, ex_skb6), (0x2000, ex_pkt6), (0x3000, ex_dev)]\<rparr>"



definition zero_config :: config where
  "zero_config = \<lparr>config.mark = 0, ipv6 = 0, config.saddr = \<lparr>pad0 = 0, pad1 = 0\<rparr>,
     config.daddr = \<lparr>pad0 = 0, pad1 = 0\<rparr>, l4_proto = 0, config.sport = 0, config.dport = 0,
     output_timestamp = 0, output_meta = 0, output_tuple = 0, output_skb = 0, output_stack = 0,
     config.pad = 0\<rparr>"

definition ex_ctx :: pt_regs where
  "ex_ctx = \<lparr>di = 0x1000, si = 0, dx = 0, cx = 0, r8 = 0, sp = 0, bp = 0, ax = 0,
     ip = 0xFFFFFFFF81000000\<rparr>"





definition ex_state :: kstate where
  "ex_state = \<lparr>events = [], print_skb_id_ctr = 0, print_skb_map = replicate 256 [],
     p_static = \<lparr>ptr = 0, type_id = 0\<rparr>, print_stack_map = (\<lambda>k. None)\<rparr>"

section \<open>Facts about the bounded reader and the layouts\<close>

lemmas observables =
  rd8_def rd16_def rd32_def rd64_def skb_head_of_def network_header_of_def
  transport_header_of_def ip_version_def

lemmas layouts =
  sizeof_iphdr_def iphdr_off_protocol_def iphdr_off_saddr_def iphdr_off_daddr_def
  sizeof_tcphdr_def tcphdr_off_source_def tcphdr_off_dest_def
  sizeof_udphdr_def udphdr_off_source_def udphdr_off_dest_def
  IPPROTO_TCP_def IPPROTO_UDP_def field_def

lemma BPF_CORE_READ_eq: "BPF_CORE_READ m n a = snd (bpf_probe_read m n a)"
  by (simp add: BPF_CORE_READ_def)

lemma bpf_probe_read_fail:
  "read_bytes m a n = None \<Longrightarrow> bpf_probe_read m n a = (- EFAULT, replicate n 0)"
  by (simp add: bpf_probe_read_def)

lemma bpf_probe_read_ok:
  "read_bytes m a n = Some bs \<Longrightarrow> bpf_probe_read m n a = (0, bs)"
  by (simp add: bpf_probe_read_def)

lemma read_bytes_length: "read_bytes m a n = Some bs \<Longrightarrow> length bs = n"
  by (induction n arbitrary: a bs) (auto split: option.splits)

lemma read_bytes_prefix:
  "read_bytes m a (n + k) = Some bs \<Longrightarrow> read_bytes m a n = Some (take n bs)"
proof (induction n arbitrary: a bs)
  case 0
  then show ?case by simp
next
  case (Suc n)
  then show ?case
    by (auto split: option.splits)
qed

lemma le_word_zeros: "le_word (replicate n 0) = 0"
  by (induction n) simp_all

lemma rd_fail_zero:
  "read_bytes (kmem E) a 1 = None \<Longrightarrow> rd8 E a = 0"
  "read_bytes (kmem E) a 2 = None \<Longrightarrow> rd16 E a = 0"
  "read_bytes (kmem E) a 4 = None \<Longrightarrow> rd32 E a = 0"
  "read_bytes (kmem E) a 8 = None \<Longrightarrow> rd64 E a = 0"
  by (simp_all add: rd8_def rd16_def rd32_def rd64_def bpf_probe_read_fail le_word_zeros)

lemma tuple_filter_zero_iff:
  "tuple_filter_zero cfg \<longleftrightarrow>
     (l4_proto cfg = 0 \<and>
      pad0 (config.saddr cfg) = 0 \<and> pad1 (config.saddr cfg) = 0 \<and>
      pad0 (config.daddr cfg) = 0 \<and> pad1 (config.daddr cfg) = 0 \<and>
      config.sport cfg = 0 \<and> config.dport cfg = 0)"
proof -
  have eq: "\<And>r :: addr_union. (r = \<lparr>pad0 = 0, pad1 = 0\<rparr>) = (pad0 r = 0 \<and> pad1 r = 0)"
    by (auto intro: addr_union.equality)
  show ?thesis
    by (auto simp: tuple_filter_zero_def eq)
qed

section \<open>The handler without configuration, and on rejection\<close>



text \<open>
  Claim C6. When a configuration is present and \<^verbatim>\<open>filter\<close> rejects the object,
  \<^verbatim>\<open>handle_everything\<close> returns 0 with the state untouched: no record on the channel,
  no dump slot written, the dump counter and the stack-trace table as they were.
\<close>

theorem handle_everything_rejected_silent:
  assumes "cfg_map E = Some cfg" and "\<not> filter_skb E skb cfg"
  shows "handle_everything E skb ctx s = (0, s)"
  using assms by (simp add: handle_everything_def cfg_map_lookup_def)

theorem handle_everything_rejected_silent_witness:
  "cfg_map (ex_env\<lparr>cfg_map := Some (zero_config\<lparr>config.mark := 6\<rparr>)\<rparr>)
     = Some (zero_config\<lparr>config.mark := 6\<rparr>) \<and>
   \<not> filter_skb (ex_env\<lparr>cfg_map := Some (zero_config\<lparr>config.mark := 6\<rparr>)\<rparr>) 0x1000
        (zero_config\<lparr>config.mark := 6\<rparr>) \<and>
   handle_everything (ex_env\<lparr>cfg_map := Some (zero_config\<lparr>config.mark := 6\<rparr>)\<rparr>)
       0x1000 ex_ctx ex_state
     = (0, ex_state)"
proof -
  have h1: "cfg_map (ex_env\<lparr>cfg_map := Some (zero_config\<lparr>config.mark := 6\<rparr>)\<rparr>)
     = Some (zero_config\<lparr>config.mark := 6\<rparr>)"
    by simp
  have h2: "\<not> filter_skb (ex_env\<lparr>cfg_map := Some (zero_config\<lparr>config.mark := 6\<rparr>)\<rparr>) 0x1000
        (zero_config\<lparr>config.mark := 6\<rparr>)"
    by code_simp
  show ?thesis
    using handle_everything_rejected_silent [OF h1 h2, of ex_ctx ex_state] h1 h2 by simp
qed

section \<open>The tuple filter\<close>

text \<open>
  Claim C2. When the 5-tuple portion of the configuration is entirely zero (both address
  unions, the L4 protocol, both ports), \<^verbatim>\<open>filter_l3_and_l4\<close> returns true for every
  traced object and every memory, readable or not.
\<close>

theorem filter_l3_and_l4_zero_tuple:
  "tuple_filter_zero cfg \<Longrightarrow> filter_l3_and_l4 E skb cfg"
  by (simp add: tuple_filter_zero_def filter_l3_and_l4_def)

theorem filter_l3_and_l4_zero_tuple_witness:
  "tuple_filter_zero zero_config \<and>
   filter_l3_and_l4 (ex_env\<lparr>kmem := (\<lambda>a. None)\<rparr>) 0x1000 zero_config"
proof -
  have h: "tuple_filter_zero zero_config"
    by (simp add: tuple_filter_zero_def zero_config_def)
  show ?thesis
    using filter_l3_and_l4_zero_tuple [OF h] h by simp
qed

text \<open>
  Claim C3. When at least one field of the tuple filter is non-zero and the IP version
  nibble of the object's network header is not 4, \<^verbatim>\<open>filter_l3_and_l4\<close> returns false.
  An unreadable first byte reads as zero, so its version is not 4 either.
\<close>

theorem filter_l3_and_l4_rejects_non_ipv4:
  assumes "\<not> tuple_filter_zero cfg" and "ip_version E skb \<noteq> 4"
  shows "\<not> filter_l3_and_l4 E skb cfg"
proof -
  from assms(1) have nz: "\<not> (l4_proto cfg = 0 \<and>
      pad0 (config.saddr cfg) = 0 \<and> pad1 (config.saddr cfg) = 0 \<and>
      pad0 (config.daddr cfg) = 0 \<and> pad1 (config.daddr cfg) = 0 \<and>
      config.sport cfg = 0 \<and> config.dport cfg = 0)"
    by (simp add: tuple_filter_zero_iff)
  from assms(2) have v: "drop_bit 4 (le_word (snd (bpf_probe_read (kmem E) 1
       (le_word (snd (bpf_probe_read (kmem E) 8 (skb + off_head (lay E)))) +
        ucast (le_word (snd (bpf_probe_read (kmem E) 2
                 (skb + off_network_header (lay E)))) :: u16)))) :: u8) \<noteq> 4"
    by (simp add: observables)
  show ?thesis
    using nz v by (simp add: filter_l3_and_l4_def BPF_CORE_READ_eq Let_def)
qed

theorem filter_l3_and_l4_rejects_non_ipv4_witness:
  "\<not> tuple_filter_zero (zero_config\<lparr>config.dport := 0xBB01\<rparr>) \<and>
   ip_version ex_env6 0x1000 \<noteq> 4 \<and>
   \<not> filter_l3_and_l4 ex_env6 0x1000 (zero_config\<lparr>config.dport := 0xBB01\<rparr>)"
proof -
  have h1: "\<not> tuple_filter_zero (zero_config\<lparr>config.dport := 0xBB01\<rparr>)"
    by (simp add: tuple_filter_zero_def zero_config_def)
  have h2: "ip_version ex_env6 0x1000 \<noteq> 4"
    by code_simp
  show ?thesis
    using filter_l3_and_l4_rejects_non_ipv4 [OF h1 h2] h1 h2 by simp
qed

text \<open>
  The filter read through the observables: the same sequence of tests as the source, on
  the header fields named above.
\<close>

lemma filter_l3_and_l4_unfold:
  "filter_l3_and_l4 E skb cfg =
     (if tuple_filter_zero cfg then True
      else if ip_version E skb \<noteq> 4 then False
      else if v4addr (config.saddr cfg) \<noteq> 0 \<and> ip4_saddr E skb \<noteq> v4addr (config.saddr cfg) then False
      else if v4addr (config.daddr cfg) \<noteq> 0 \<and> ip4_daddr E skb \<noteq> v4addr (config.daddr cfg) then False
      else if l4_proto cfg \<noteq> 0 \<and> ip4_protocol E skb \<noteq> l4_proto cfg then False
      else if config.dport cfg \<noteq> 0 \<or> config.sport cfg \<noteq> 0 then
        (case
           (if ip4_protocol E skb = 6 then
              Some ((le_word (take 2 (drop 0 (snd (bpf_probe_read (kmem E) 20
                        (transport_header_of E skb))))) :: u16),
                    (le_word (take 2 (drop 2 (snd (bpf_probe_read (kmem E) 20
                        (transport_header_of E skb))))) :: u16))
            else if ip4_protocol E skb = 17 then
              Some ((le_word (take 2 (drop 0 (snd (bpf_probe_read (kmem E) 8
                        (transport_header_of E skb))))) :: u16),
                    (le_word (take 2 (drop 2 (snd (bpf_probe_read (kmem E) 8
                        (transport_header_of E skb))))) :: u16))
            else None)
         of
           None \<Rightarrow> False
         | Some (l4_sport, l4_dport) \<Rightarrow>
             if config.sport cfg \<noteq> 0 \<and> l4_sport \<noteq> config.sport cfg then False
             else if config.dport cfg \<noteq> 0 \<and> l4_dport \<noteq> config.dport cfg then False
             else True)
      else True)"
  unfolding filter_l3_and_l4_def tuple_filter_zero_iff BPF_CORE_READ_eq Let_def observables layouts
        ip4_hdr_def ip4_saddr_def ip4_daddr_def ip4_protocol_def if_cancel
  by (rule refl)

lemma filter_l3_and_l4_port_cases:
  assumes "config.sport cfg \<noteq> 0 \<or> config.dport cfg \<noteq> 0"
  shows "filter_l3_and_l4 E skb cfg \<longleftrightarrow>
     ip_version E skb = 4 \<and>
     (v4addr (config.saddr cfg) = 0 \<or> ip4_saddr E skb = v4addr (config.saddr cfg)) \<and>
     (v4addr (config.daddr cfg) = 0 \<or> ip4_daddr E skb = v4addr (config.daddr cfg)) \<and>
     (l4_proto cfg = 0 \<or> ip4_protocol E skb = l4_proto cfg) \<and>
     (ip4_protocol E skb = 6 \<or> ip4_protocol E skb = 17) \<and>
     (config.sport cfg = 0 \<or> l4_port E skb 0 = config.sport cfg) \<and>
     (config.dport cfg = 0 \<or> l4_port E skb 2 = config.dport cfg)"
proof -
  from assms have nz: "\<not> tuple_filter_zero cfg"
    by (auto simp: tuple_filter_zero_def)
  consider (tcp) "ip4_protocol E skb = 6"
    | (udp) "ip4_protocol E skb = 17"
    | (other) "ip4_protocol E skb \<noteq> 6" "ip4_protocol E skb \<noteq> 17"
    by blast
  then show ?thesis
  proof cases
    case tcp
    then show ?thesis
      using assms nz by (auto simp: filter_l3_and_l4_unfold l4_port_def l4_hdr_def)
  next
    case udp
    then show ?thesis
      using assms nz by (auto simp: filter_l3_and_l4_unfold l4_port_def l4_hdr_def)
  next
    case other
    then show ?thesis
      using assms nz by (auto simp: filter_l3_and_l4_unfold)
  qed
qed

lemma l4_port_readable:
  assumes "read_bytes (kmem E) (transport_header_of E skb) 20 = Some bs"
  shows "l4_port E skb 0 = le_word (take 2 bs) \<and> l4_port E skb 2 = le_word (take 2 (drop 2 bs))"
proof -
  have "read_bytes (kmem E) (transport_header_of E skb) (8 + 12) = Some bs"
    using assms by simp
  then have r8: "read_bytes (kmem E) (transport_header_of E skb) 8 = Some (take 8 bs)"
    by (rule read_bytes_prefix)
  have t: "take 2 (take 8 bs) = take 2 bs" "take 2 (drop 2 (take 8 bs)) = take 2 (drop 2 bs)"
    by (simp_all add: drop_take)
  show ?thesis
    by (simp add: l4_port_def l4_hdr_def bpf_probe_read_ok [OF assms] bpf_probe_read_ok [OF r8] t)
qed

text \<open>
  Claim C4. With a non-zero source or destination port in the configuration,
  \<^verbatim>\<open>filter_l3_and_l4\<close> accepts exactly when the object is IPv4, the configured addresses
  and L4 protocol (each skipped when zero) equal those of the IPv4 header, the protocol
  byte is TCP (6) or UDP (17), and each configured port that is non-zero equals the port
  of the transport header; a zero configured port is not compared. Any other protocol
  byte gives false. For TCP and UDP alike the source port is the 16-bit field at byte
  offset 0 of the transport header and the destination port the one at byte offset 2:
  when the twenty bytes at the transport header are readable, these are its bytes 0 to 1
  and 2 to 3, whichever of the two protocols it is.
\<close>

theorem filter_l3_and_l4_port_filter:
  assumes "config.sport cfg \<noteq> 0 \<or> config.dport cfg \<noteq> 0"
  shows "(filter_l3_and_l4 E skb cfg \<longleftrightarrow>
            ip_version E skb = 4 \<and>
            (v4addr (config.saddr cfg) = 0 \<or> ip4_saddr E skb = v4addr (config.saddr cfg)) \<and>
            (v4addr (config.daddr cfg) = 0 \<or> ip4_daddr E skb = v4addr (config.daddr cfg)) \<and>
            (l4_proto cfg = 0 \<or> ip4_protocol E skb = l4_proto cfg) \<and>
            (ip4_protocol E skb = 6 \<or> ip4_protocol E skb = 17) \<and>
            (config.sport cfg = 0 \<or> l4_port E skb 0 = config.sport cfg) \<and>
            (config.dport cfg = 0 \<or> l4_port E skb 2 = config.dport cfg)) \<and>
         (\<forall>bs. read_bytes (kmem E) (transport_header_of E skb) 20 = Some bs \<longrightarrow>
            l4_port E skb 0 = le_word (take 2 bs) \<and>
            l4_port E skb 2 = le_word (take 2 (drop 2 bs)))"
  using filter_l3_and_l4_port_cases [OF assms, of E skb] l4_port_readable [of E skb]
  by blast

theorem filter_l3_and_l4_port_filter_witness:
  "config.dport (zero_config\<lparr>config.dport := 0xBB01\<rparr>) = 0xBB01 \<and>
   read_bytes (kmem ex_env) (transport_header_of ex_env 0x1000) 20 = Some ex_tcp \<and>
   l4_port ex_env 0x1000 2 = le_word (take 2 (drop 2 ex_tcp)) \<and>
   filter_l3_and_l4 ex_env 0x1000 (zero_config\<lparr>config.dport := 0xBB01\<rparr>) \<and>
   config.dport (zero_config\<lparr>config.dport := 0xBC01\<rparr>) = 0xBC01 \<and>
   \<not> filter_l3_and_l4 ex_env 0x1000 (zero_config\<lparr>config.dport := 0xBC01\<rparr>)"
proof -
  have h1: "config.sport (zero_config\<lparr>config.dport := 0xBB01\<rparr>) \<noteq> 0 \<or>
            config.dport (zero_config\<lparr>config.dport := 0xBB01\<rparr>) \<noteq> 0"
    by simp
  have h2: "config.sport (zero_config\<lparr>config.dport := 0xBC01\<rparr>) \<noteq> 0 \<or>
            config.dport (zero_config\<lparr>config.dport := 0xBC01\<rparr>) \<noteq> 0"
    by simp
  have r: "read_bytes (kmem ex_env) (transport_header_of ex_env 0x1000) 20 = Some ex_tcp"
    by code_simp
  have obs: "ip_version ex_env 0x1000 = 4" "ip4_protocol ex_env 0x1000 = 6"
    "l4_port ex_env 0x1000 0 = 0x5C11" "l4_port ex_env 0x1000 2 = 0xBB01"
    by code_simp+
  have cfg: "v4addr (config.saddr zero_config) = 0" "v4addr (config.daddr zero_config) = 0"
    "l4_proto zero_config = 0" "config.sport zero_config = 0"
    by (simp_all add: zero_config_def v4addr_def)
  have a: "filter_l3_and_l4 ex_env 0x1000 (zero_config\<lparr>config.dport := 0xBB01\<rparr>)"
    using filter_l3_and_l4_port_filter [OF h1, of ex_env "0x1000"] by (simp add: obs cfg)
  have b: "\<not> filter_l3_and_l4 ex_env 0x1000 (zero_config\<lparr>config.dport := 0xBC01\<rparr>)"
    using filter_l3_and_l4_port_filter [OF h2, of ex_env "0x1000"] by (simp add: obs cfg)
  have c: "l4_port ex_env 0x1000 2 = le_word (take 2 (drop 2 ex_tcp))"
    using filter_l3_and_l4_port_filter [OF h1, of ex_env "0x1000"] r by blast
  show ?thesis
    using r a b c by simp
qed

section \<open>Tuple extraction\<close>

lemma set_tuple_unfold:
  "set_tuple E skb t0 =
     (let t1 = t0\<lparr>proto := rd8 E (network_header_of E skb + 9)\<rparr>;
          t2 = (if ip_version E skb = 4
                then t1\<lparr>tuple.saddr := rd32 E (network_header_of E skb + 12),
                         tuple.daddr := rd32 E (network_header_of E skb + 16),
                         tuple.pad := snd (bpf_probe_read (kmem E) 4 (network_header_of E skb + 16))
                                        @ drop 4 (tuple.pad t1)\<rparr>
                else t1)
      in if proto t2 = 6 then
           t2\<lparr>tuple.sport := rd16 E (transport_header_of E skb),
                tuple.dport := rd16 E (transport_header_of E skb + 2)\<rparr>
         else if proto t2 = 17 then
           t2\<lparr>tuple.sport := rd16 E (transport_header_of E skb),
                tuple.dport := rd16 E (transport_header_of E skb + 2)\<rparr>
         else t2)"
  unfolding set_tuple_def BPF_CORE_READ_eq Let_def observables layouts if_cancel
  by (simp split del: if_split cong: if_cong)

text \<open>
  Claim C5, as the code has it. \<^verbatim>\<open>set_tuple\<close> always records the protocol byte (byte 9
  of the network header), whatever the IP version. It writes the two address fields only
  when the IP version nibble is 4. It writes the two port fields whenever the recorded
  protocol byte is TCP (6) or UDP (17), whatever the IP version, from byte offsets 0 and 2
  of the transport header. A field that is not written keeps the value it had, zero in
  the fresh event; a field whose bounded read fails is written as zero.
\<close>

theorem set_tuple_fields:
  "proto (set_tuple E skb t) = rd8 E (network_header_of E skb + 9) \<and>
   tuple.saddr (set_tuple E skb t) =
     (if ip_version E skb = 4 then rd32 E (network_header_of E skb + 12) else tuple.saddr t) \<and>
   tuple.daddr (set_tuple E skb t) =
     (if ip_version E skb = 4 then rd32 E (network_header_of E skb + 16) else tuple.daddr t) \<and>
   tuple.sport (set_tuple E skb t) =
     (if rd8 E (network_header_of E skb + 9) = 6 \<or> rd8 E (network_header_of E skb + 9) = 17
      then rd16 E (transport_header_of E skb) else tuple.sport t) \<and>
   tuple.dport (set_tuple E skb t) =
     (if rd8 E (network_header_of E skb + 9) = 6 \<or> rd8 E (network_header_of E skb + 9) = 17
      then rd16 E (transport_header_of E skb + 2) else tuple.dport t) \<and>
   (\<forall>a. read_bytes (kmem E) a 1 = None \<longrightarrow> rd8 E a = 0) \<and>
   (\<forall>a. read_bytes (kmem E) a 2 = None \<longrightarrow> rd16 E a = 0) \<and>
   (\<forall>a. read_bytes (kmem E) a 4 = None \<longrightarrow> rd32 E a = 0)"
  by (simp add: set_tuple_unfold Let_def rd_fail_zero)

theorem set_tuple_fields_witness:
  "read_bytes (kmem ex_env6) 0 4 = None \<and> rd32 ex_env6 0 = 0 \<and>
   proto (set_tuple ex_env6 0x1000 zero_tuple) = 6 \<and>
   tuple.saddr (set_tuple ex_env6 0x1000 zero_tuple) = 0 \<and>
   tuple.daddr (set_tuple ex_env6 0x1000 zero_tuple) = 0 \<and>
   tuple.sport (set_tuple ex_env6 0x1000 zero_tuple) = 0x5C11 \<and>
   tuple.dport (set_tuple ex_env6 0x1000 zero_tuple) = 0xBB01"
proof -
  have h: "read_bytes (kmem ex_env6) 0 4 = None"
    by code_simp
  have obs: "ip_version ex_env6 0x1000 = 6"
    "rd8 ex_env6 (network_header_of ex_env6 0x1000 + 9) = 6"
    "rd16 ex_env6 (transport_header_of ex_env6 0x1000) = 0x5C11"
    "rd16 ex_env6 (transport_header_of ex_env6 0x1000 + 2) = 0xBB01"
    by code_simp+
  show ?thesis
    using set_tuple_fields [of ex_env6 "0x1000" zero_tuple] h
    by (simp add: obs zero_tuple_def)
qed

text \<open>
  The claim as written fails on an IPv6 packet from 2a06:98c0::1: its version nibble is 6,
  byte 9 of its header is 6, and \<^verbatim>\<open>set_tuple\<close> fills both port fields from the
  transport header.
\<close>

theorem set_tuple_ports_without_ipv4:
  "ip_version ex_env6 0x1000 = 6 \<and>
   tuple.sport zero_tuple = 0 \<and> tuple.dport zero_tuple = 0 \<and>
   tuple.sport (set_tuple ex_env6 0x1000 zero_tuple) = 0x5C11 \<and>
   tuple.dport (set_tuple ex_env6 0x1000 zero_tuple) = 0xBB01"
  by code_simp

lemma pad_zero_iff:
  assumes "length bs = 4"
  shows "bs @ drop 4 (replicate 7 (0::u8)) = replicate 7 0 \<longleftrightarrow> bs = replicate 4 0"
proof -
  have "replicate 7 (0::u8) = replicate 4 0 @ replicate 3 0"
    by (simp add: replicate_add [symmetric])
  then show ?thesis
    using assms by simp
qed

text \<open>
  Claim C10, as the code has it. When the IP version nibble is 4 and the four bytes of the
  destination address are readable, \<^verbatim>\<open>set_tuple\<close> copies them into the first four bytes
  of the tuple's pad and leaves the last three bytes of pad as they were, so the first
  four bytes of pad duplicate \<^verbatim>\<open>daddr\<close>. Starting from the zero pad of a fresh event, the
  resulting pad is all-zero exactly when the four address bytes are all zero.
\<close>

theorem set_tuple_pad_copies_daddr:
  assumes "ip_version E skb = 4"
    and "read_bytes (kmem E) (network_header_of E skb + 16) 4 = Some bs"
  shows "tuple.pad (set_tuple E skb t) = bs @ drop 4 (tuple.pad t) \<and>
         take 4 (tuple.pad (set_tuple E skb t)) = bs \<and>
         tuple.daddr (set_tuple E skb t) = le_word bs \<and>
         (tuple.pad t = replicate 7 0 \<longrightarrow>
            (tuple.pad (set_tuple E skb t) = replicate 7 0 \<longleftrightarrow> bs = replicate 4 0))"
proof -
  have len: "length bs = 4"
    using assms(2) by (rule read_bytes_length)
  have pad: "tuple.pad (set_tuple E skb t) = bs @ drop 4 (tuple.pad t)"
    and dad: "tuple.daddr (set_tuple E skb t) = le_word bs"
    using assms(1) by (simp_all add: set_tuple_unfold Let_def bpf_probe_read_ok [OF assms(2)] rd32_def)
  have tk: "take 4 (tuple.pad (set_tuple E skb t)) = bs"
    using len by (simp add: pad)
  have z: "tuple.pad t = replicate 7 0 \<longrightarrow>
            (tuple.pad (set_tuple E skb t) = replicate 7 0 \<longleftrightarrow> bs = replicate 4 0)"
    using pad_zero_iff [OF len] by (auto simp: pad)
  show ?thesis
    using pad tk dad z by blast
qed

theorem set_tuple_pad_copies_daddr_witness:
  "ip_version ex_env 0x1000 = 4 \<and>
   read_bytes (kmem ex_env) (network_header_of ex_env 0x1000 + 16) 4 = Some [192, 168, 1, 2] \<and>
   tuple.pad (set_tuple ex_env 0x1000 zero_tuple) = [192, 168, 1, 2] @ drop 4 (tuple.pad zero_tuple) \<and>
   tuple.daddr (set_tuple ex_env 0x1000 zero_tuple) = 0x0201A8C0"
proof -
  have h1: "ip_version ex_env 0x1000 = 4"
    by code_simp
  have h2: "read_bytes (kmem ex_env) (network_header_of ex_env 0x1000 + 16) 4 = Some [192, 168, 1, 2]"
    by code_simp
  show ?thesis
    using set_tuple_pad_copies_daddr [OF h1 h2, of zero_tuple] h1 h2
    by simp
qed

text \<open>
  The claim as written fails on an IPv4 packet to 0.0.0.0: the version nibble is 4, the
  destination address is readable, and the pad of the extracted tuple is all-zero.
\<close>

theorem set_tuple_pad_zero_daddr:
  "ip_version ex_env0 0x1000 = 4 \<and>
   read_bytes (kmem ex_env0) (network_header_of ex_env0 0x1000 + 16) 4 = Some [0, 0, 0, 0] \<and>
   tuple.pad (set_tuple ex_env0 0x1000 zero_tuple) = [0, 0, 0, 0, 0, 0, 0]"
  by code_simp

section \<open>Metadata extraction\<close>




section \<open>The dump ring\<close>

lemma unat_mod_256: "unat ((n :: u64) mod 256) = unat n mod 256"
  by (simp add: unat_mod)

lemma slot_key: "unat (ucast ((n :: u64) mod 256) :: u32) = unat n mod 256"
proof -
  have "unat n mod 256 < 2 ^ 32"
    by (rule less_trans [of _ 256]) simp_all
  then show ?thesis
    by (simp add: unsigned_ucast_eq unat_mod_256 take_bit_nat_eq_self)
qed

lemma slot_wrap: "unat ((n :: u64) + 256) mod 256 = unat n mod 256"
proof -
  have "unat (n + 256) = (unat n + 256) mod 2 ^ 64"
    by (simp add: unat_word_ariths)
  moreover have "(256::nat) dvd 2 ^ 64"
    by simp
  ultimately show ?thesis
    by (simp add: mod_mod_cancel)
qed

lemma word_mod_256_wrap: "((n :: u64) + 256) mod 256 = n mod 256"
  by (rule word_unat_eq_iff [THEN iffD2]) (simp only: unat_mod_256 slot_wrap)

lemma set_skb_btf_eq:
  assumes "OUTPUT_SKB E" and "length (print_skb_map s) = 256"
  shows "set_skb_btf E skb eid s =
     (let n = print_skb_id_ctr s;
          slot = unat n mod 256;
          p = (p_static s)\<lparr>type_id := type_id_kernel_sk_buff E, ptr := skb\<rparr>;
          r = snprintf_btf E (print_skb_map s ! slot) 2048 p
      in ((if fst r < 0 then eid else n mod 256),
          s\<lparr>p_static := p, print_skb_id_ctr := n + 1,
            print_skb_map := (print_skb_map s)[slot := snd r]\<rparr>))"
  using assms
  by (simp add: set_skb_btf_def sync_fetch_and_add_def print_skb_map_lookup_def slot_key
        PRINT_SKB_STR_SIZE_def Let_def split_beta)

text \<open>
  Claim C7. In a build with the dump ring and a pool of 256 slots, a call of
  \<^verbatim>\<open>set_skb_btf\<close> that observes the counter value \<open>n\<close> advances the counter to \<open>n + 1\<close>,
  renders into the slot of index \<open>n mod 256\<close> and, when the rendering succeeds, reports
  the id \<open>n mod 256\<close>. A call that observes a counter 256 higher, on the same pool,
  therefore selects the same slot and reports the same id: the call observing 256
  lands where the call observing 0 does.
\<close>

theorem set_skb_btf_slot_mod_256:
  assumes "OUTPUT_SKB E" and "length (print_skb_map s) = 256"
    and "print_skb_map s' = print_skb_map s" and "p_static s' = p_static s"
    and "print_skb_id_ctr s' = print_skb_id_ctr s + 256"
  shows "set_skb_btf E skb eid s =
     (let n = print_skb_id_ctr s;
          slot = unat n mod 256;
          p = (p_static s)\<lparr>type_id := type_id_kernel_sk_buff E, ptr := skb\<rparr>;
          r = snprintf_btf E (print_skb_map s ! slot) 2048 p
      in ((if fst r < 0 then eid else n mod 256),
          s\<lparr>p_static := p, print_skb_id_ctr := n + 1,
            print_skb_map := (print_skb_map s)[slot := snd r]\<rparr>)) \<and>
     fst (set_skb_btf E skb eid s') = fst (set_skb_btf E skb eid s) \<and>
     print_skb_map (snd (set_skb_btf E skb eid s')) = print_skb_map (snd (set_skb_btf E skb eid s))"
proof -
  have len': "length (print_skb_map s') = 256"
    using assms(2,3) by simp
  show ?thesis
    using assms(3,4,5)
    by (simp add: set_skb_btf_eq [OF assms(1,2)] set_skb_btf_eq [OF assms(1) len'] Let_def
          slot_wrap word_mod_256_wrap)
qed

theorem set_skb_btf_slot_mod_256_witness:
  "OUTPUT_SKB ex_env \<and> length (print_skb_map ex_state) = 256 \<and>
   print_skb_id_ctr ex_state = 0 \<and>
   print_skb_id_ctr (ex_state\<lparr>print_skb_id_ctr := 256\<rparr>) = print_skb_id_ctr ex_state + 256 \<and>
   fst (set_skb_btf ex_env 0x1000 99 ex_state) = 0 \<and>
   fst (set_skb_btf ex_env 0x1000 99 (ex_state\<lparr>print_skb_id_ctr := 256\<rparr>)) = 0 \<and>
   print_skb_map (snd (set_skb_btf ex_env 0x1000 99 (ex_state\<lparr>print_skb_id_ctr := 256\<rparr>))) =
     (replicate 256 [])[0 := [1]]"
proof -
  have h1: "OUTPUT_SKB ex_env"
    by (simp add: ex_env_def)
  have h2: "length (print_skb_map ex_state) = 256"
    by (simp add: ex_state_def)
  have h3: "print_skb_map (ex_state\<lparr>print_skb_id_ctr := 256\<rparr>) = print_skb_map ex_state"
    by simp
  have h4: "p_static (ex_state\<lparr>print_skb_id_ctr := 256\<rparr>) = p_static ex_state"
    by simp
  have h5: "print_skb_id_ctr (ex_state\<lparr>print_skb_id_ctr := 256\<rparr>) = print_skb_id_ctr ex_state + 256"
    by (simp add: ex_state_def)
  have f: "snprintf_btf ex_env = (\<lambda>b n p. (1, [1]))"
    by (simp add: ex_env_def)
  have c: "print_skb_id_ctr ex_state = 0" "print_skb_map ex_state = replicate 256 []"
    by (simp_all add: ex_state_def)
  show ?thesis
    using set_skb_btf_slot_mod_256 [OF h1 h2 h3 h4 h5, of "0x1000" 99] h1 h2 h5
    by (simp add: Let_def f c)
qed

section \<open>The entry points\<close>








end
